theory Spec2Isabelle
  imports Main "HOL-Library.Word"
begin

section \<open>graphql-mongo: a GraphQL endpoint over a document store\<close>

text \<open>
  The development embeds \<^verbatim>\<open>src/go/graphql-mongo/index.go\<close>: the HTTP handler, the
  connection helper \<^verbatim>\<open>GetMongo\<close>, \<^verbatim>\<open>Cleanup\<close>, the package initialiser
  \<^verbatim>\<open>init\<close> and the resolver method \<^verbatim>\<open>Resolver.Post\<close>.

  The program talks to libraries whose code is not part of the repository: the MongoDB
  driver, the GraphQL executor and Go's \<^verbatim>\<open>net/http\<close> and \<^verbatim>\<open>encoding/json\<close>.
  The document store is modelled as explicit state (a \<open>world\<close>), every driver call may fail
  according to a schedule carried by the world, and the JSON codec, the executor and the
  cursor's \<^verbatim>\<open>Decode\<close> are parameters of the functions that call them.
\<close>

subsection \<open>BSON documents and filters\<close>

datatype bson_value = Int32 "32 word" | String string

type_synonym bson_doc = "(string \<times> bson_value) list"

text \<open>
  \<^verbatim>\<open>bson.NewDocument(e1, ..., en)\<close> is the list of its elements in order. A filter is a
  document; a stored document matches it when every element of the filter occurs in the
  document with an equal value. The empty filter matches every document.
\<close>

definition matches :: "bson_doc \<Rightarrow> bson_doc \<Rightarrow> bool" where
  "matches flt d = list_all (\<lambda>(k, v). map_of d k = Some v) flt"

subsection \<open>The world outside the program\<close>

record collection =
  database :: string
  coll :: string

datatype call =
    Connect string
  | DeleteMany collection bson_doc
  | InsertMany collection "bson_doc list"
  | Find collection bson_doc

text \<open>
  \<open>environ\<close> is the process environment (an unset variable reads as the empty string, as
  \<^verbatim>\<open>os.Getenv\<close> does); \<open>store\<close> gives the documents of every collection of every database
  in their natural order; \<open>faults\<close> holds the error results of the coming driver calls, one
  per call, \<open>None\<close> for a call that succeeds (calls beyond the end of the schedule succeed);
  \<open>calls\<close> records the driver calls made so far; \<open>stderr\<close> and \<open>stdout\<close> are the lines
  written by \<^verbatim>\<open>log\<close> and by \<^verbatim>\<open>fmt.Println\<close>.
\<close>

record world =
  environ :: "string \<Rightarrow> string"
  store :: "string \<times> string \<Rightarrow> bson_doc list"
  faults :: "string option list"
  calls :: "call list"
  stderr :: "string list"
  stdout :: "string list"

text \<open>
  A Go function either returns, or the process exits (\<^verbatim>\<open>log.Fatal\<close> calls
  \<^verbatim>\<open>os.Exit(1)\<close>), or it panics. Each outcome carries the world it leaves behind.
\<close>

datatype 'a outcome = Returned 'a world | Exited world | Panicked world

fun world_of :: "'a outcome \<Rightarrow> world" where
  "world_of (Returned _ w) = w"
| "world_of (Exited w) = w"
| "world_of (Panicked w) = w"

fun terminated :: "'a outcome \<Rightarrow> bool" where
  "terminated (Exited _) = True"
| "terminated _ = False"

definition log_Println :: "string \<Rightarrow> world \<Rightarrow> world" where
  "log_Println msg w = w\<lparr>stderr := stderr w @ [msg]\<rparr>"

definition log_Fatal :: "string \<Rightarrow> world \<Rightarrow> 'a outcome" where
  "log_Fatal msg w = Exited (w\<lparr>stderr := stderr w @ [msg]\<rparr>)"

definition fmt_Println :: "string \<Rightarrow> world \<Rightarrow> world" where
  "fmt_Println msg w = w\<lparr>stdout := stdout w @ [msg]\<rparr>"

subsection \<open>The driver\<close>

text \<open>
  Every driver call is recorded and takes the next entry of the fault schedule as its error
  result. A failing call leaves the store as it was.
\<close>

definition driver_call :: "call \<Rightarrow> world \<Rightarrow> string option \<times> world" where
  "driver_call c w =
     (case faults w of
        [] \<Rightarrow> (None, w\<lparr>calls := calls w @ [c]\<rparr>)
      | f # fs \<Rightarrow> (f, w\<lparr>faults := fs, calls := calls w @ [c]\<rparr>))"

definition mongo_Connect :: "string \<Rightarrow> world \<Rightarrow> string option \<times> world" where
  "mongo_Connect uri w = driver_call (Connect uri) w"

definition collection_DeleteMany :: "collection \<Rightarrow> bson_doc \<Rightarrow> world \<Rightarrow> string option \<times> world" where
  "collection_DeleteMany c flt w =
     (case driver_call (DeleteMany c flt) w of
        (Some e, w1) \<Rightarrow> (Some e, w1)
      | (None, w1) \<Rightarrow>
          (None, w1\<lparr>store := (store w1)((database c, coll c) :=
                     filter (\<lambda>d. \<not> matches flt d) (store w1 (database c, coll c)))\<rparr>))"

definition collection_InsertMany :: "collection \<Rightarrow> bson_doc list \<Rightarrow> world \<Rightarrow> string option \<times> world" where
  "collection_InsertMany c ds w =
     (case driver_call (InsertMany c ds) w of
        (Some e, w1) \<Rightarrow> (Some e, w1)
      | (None, w1) \<Rightarrow>
          (None, w1\<lparr>store := (store w1)((database c, coll c) :=
                     store w1 (database c, coll c) @ ds)\<rparr>))"

text \<open>
  \<^verbatim>\<open>Find\<close> returns a cursor and an error. The cursor is the list of the matching documents
  still to come; on failure the cursor is nil (\<open>None\<close>).
\<close>

definition collection_Find ::
  "collection \<Rightarrow> bson_doc \<Rightarrow> world \<Rightarrow> bson_doc list option \<times> string option \<times> world" where
  "collection_Find c flt w =
     (case driver_call (Find c flt) w of
        (Some e, w1) \<Rightarrow> (None, Some e, w1)
      | (None, w1) \<Rightarrow> (Some (filter (matches flt) (store w1 (database c, coll c))), None, w1))"

subsection \<open>GetMongo and Cleanup\<close>

text \<open>\<^verbatim>\<open>fmt.Sprintf("mongodb://%s:%s@%s", user, pwd, host)\<close>\<close>

definition connection_string :: "string \<Rightarrow> string \<Rightarrow> string \<Rightarrow> string" where
  "connection_string user pwd host = ''mongodb://'' @ user @ '':'' @ pwd @ ''@'' @ host"

definition GetMongo :: "string \<Rightarrow> world \<Rightarrow> collection outcome" where
  "GetMongo col w =
     (let host = environ w ''HOST'';
          user = environ w ''USER'';
          pwd = environ w ''PWD''
      in case mongo_Connect (connection_string user pwd host) w of
           (Some e, w1) \<Rightarrow> log_Fatal e w1
         | (None, w1) \<Rightarrow> Returned \<lparr>database = ''graphql-mongo-zeit'', coll = col\<rparr> w1)"

definition Cleanup :: "string \<Rightarrow> world \<Rightarrow> unit outcome" where
  "Cleanup col w =
     (case GetMongo col (log_Println ''Cleaning up MongoDB...'' w) of
        Exited w1 \<Rightarrow> Exited w1
      | Panicked w1 \<Rightarrow> Panicked w1
      | Returned c w1 \<Rightarrow>
          (case collection_DeleteMany c [] w1 of
             (Some e, w2) \<Rightarrow> log_Fatal e w2
           | (None, w2) \<Rightarrow> Returned () w2))"

subsection \<open>Startup seeding\<close>

definition mock_data :: "bson_doc list" where
  "mock_data =
     [[(''ID'', Int32 1), (''title'', String ''First post''), (''slug'', String ''first-post'')],
      [(''ID'', Int32 2), (''title'', String ''Second post''), (''slug'', String ''second-post'')],
      [(''ID'', Int32 3), (''title'', String ''Third post''), (''slug'', String ''third-post'')]]"

text \<open>
  \<^verbatim>\<open>init\<close>: the handle for the insert is taken from \<^verbatim>\<open>GetMongo("posts")\<close> before
  \<^verbatim>\<open>Cleanup("post")\<close> runs. Parsing the constant schema touches neither the store nor the
  output and is left out.
\<close>

definition init :: "world \<Rightarrow> unit outcome" where
  "init w =
     (case GetMongo ''posts'' (log_Println ''Seeding mock data to MongoDB'' w) of
        Exited w1 \<Rightarrow> Exited w1
      | Panicked w1 \<Rightarrow> Panicked w1
      | Returned collection w1 \<Rightarrow>
          (case Cleanup ''post'' w1 of
             Exited w2 \<Rightarrow> Exited w2
           | Panicked w2 \<Rightarrow> Panicked w2
           | Returned _ w2 \<Rightarrow>
               (case collection_InsertMany collection mock_data w2 of
                  (Some e, w3) \<Rightarrow> log_Fatal e w3
                | (None, w3) \<Rightarrow> Returned () (log_Println ''Mock data added successfully!'' w3))))"

subsection \<open>The resolver\<close>

record post =
  ID :: string
  Slug :: string
  Title :: string

text \<open>A pointer is an option: \<open>None\<close> is nil.\<close>

record postResolver =
  s :: "post option"

record args =
  arg_Slug :: string

definition new_post :: post where
  "new_post = \<lparr>ID = '''', Slug = '''', Title = ''''\<rparr>"

text \<open>
  The loop \<^verbatim>\<open>for cur.Next(ctx) { cur.Decode(oneResult) }\<close>: every document the cursor
  yields is decoded into the same record. \<open>dec\<close> is the driver's \<^verbatim>\<open>Decode\<close>, taking the
  current document and the record it writes into; its error result is dropped by the source.
\<close>

fun decode_all :: "(bson_doc \<Rightarrow> post \<Rightarrow> post) \<Rightarrow> bson_doc list \<Rightarrow> post \<Rightarrow> post" where
  "decode_all dec [] p = p"
| "decode_all dec (d # ds) p = decode_all dec ds (dec d p)"

text \<open>
  \<^verbatim>\<open>Resolver.Post\<close>. A failed \<^verbatim>\<open>Find\<close> is printed and execution goes on with the nil
  cursor; the method calls on it (\<^verbatim>\<open>cur.Close\<close>, \<^verbatim>\<open>cur.Next\<close>) panic.
\<close>

definition Post :: "(bson_doc \<Rightarrow> post \<Rightarrow> post) \<Rightarrow> args \<Rightarrow> world \<Rightarrow> postResolver option outcome" where
  "Post dec a w =
     (let oneResult = Some new_post
      in case GetMongo ''post'' w of
           Exited w1 \<Rightarrow> Exited w1
         | Panicked w1 \<Rightarrow> Panicked w1
         | Returned collection w1 \<Rightarrow>
             (case collection_Find collection [(''slug'', String (arg_Slug a))] w1 of
                (cur, err, w2) \<Rightarrow>
                  (let w3 = (case err of Some e \<Rightarrow> fmt_Println e w2 | None \<Rightarrow> w2)
                   in case cur of
                        None \<Rightarrow> Panicked w3
                      | Some docs \<Rightarrow>
                          (let oneResult' = map_option (decode_all dec docs) oneResult
                           in if oneResult' \<noteq> None
                              then Returned (Some \<lparr>s = oneResult'\<rparr>) w3
                              else Returned None w3))))"

text \<open>The field accessors read through the pointer; on a nil pointer they panic (\<open>None\<close>).\<close>

definition postResolver_ID :: "postResolver \<Rightarrow> string option" where
  "postResolver_ID r = map_option ID (s r)"

definition postResolver_Slug :: "postResolver \<Rightarrow> string option" where
  "postResolver_Slug r = map_option Slug (s r)"

definition postResolver_Title :: "postResolver \<Rightarrow> string option" where
  "postResolver_Title r = map_option Title (s r)"

subsection \<open>Decoding a document\<close>

fun digit :: "nat \<Rightarrow> char" where
  "digit n = ''0123456789'' ! n"

function decimal :: "nat \<Rightarrow> string" where
  "decimal n = (if n < 10 then [digit n] else decimal (n div 10) @ [digit (n mod 10)])"
  by pat_completeness auto
termination
  by (relation "measure (\<lambda>n. n)") auto

declare decimal.simps [simp del]

definition itoa :: "int \<Rightarrow> string" where
  "itoa i = (if i < 0 then CHR ''-'' # decimal (nat (- i)) else decimal (nat i))"

fun scalar_string :: "bson_value \<Rightarrow> string" where
  "scalar_string (Int32 n) = itoa (sint n)"
| "scalar_string (String x) = x"

text \<open>
  Modelled from the spec: the driver's cursor \<^verbatim>\<open>Decode\<close> is library code and not under
  src. The spec has it decode a document shaped \<open>{ID: int32, title: string, slug: string}\<close>
  into the typed record, the document with ID 1 being read back with id \<open>"1"\<close>: the field
  \<open>ID\<close> goes to \<open>ID\<close> as its decimal text, \<open>slug\<close> to \<open>Slug\<close>, \<open>title\<close> to
  \<open>Title\<close>. A field the document lacks leaves the record's field as it was.
\<close>

definition Decode :: "bson_doc \<Rightarrow> post \<Rightarrow> post" where
  "Decode d p =
     p\<lparr>ID := (case map_of d ''ID'' of Some v \<Rightarrow> scalar_string v | None \<Rightarrow> ID p),
       Slug := (case map_of d ''slug'' of Some v \<Rightarrow> scalar_string v | None \<Rightarrow> Slug p),
       Title := (case map_of d ''title'' of Some v \<Rightarrow> scalar_string v | None \<Rightarrow> Title p)\<rparr>"

subsection \<open>The HTTP handler\<close>

record 'v params =
  Query :: string
  OperationName :: string
  Variables :: "string \<rightharpoonup> 'v"

record request =
  Body :: string

text \<open>
  The response writer of \<^verbatim>\<open>net/http\<close>: the header map, the status line once it has been
  written (\<open>None\<close> before), and the body written so far. \<^verbatim>\<open>WriteHeader\<close> has an
  effect only the first time, and the first \<^verbatim>\<open>Write\<close> writes status 200 when no status
  has been written.
\<close>

record response_writer =
  header :: "string \<rightharpoonup> string list"
  status :: "nat option"
  body :: string

definition Header_Set :: "string \<Rightarrow> string \<Rightarrow> response_writer \<Rightarrow> response_writer" where
  "Header_Set k v rw = rw\<lparr>header := (header rw)(k \<mapsto> [v])\<rparr>"

definition WriteHeader :: "nat \<Rightarrow> response_writer \<Rightarrow> response_writer" where
  "WriteHeader code rw = (if status rw = None then rw\<lparr>status := Some code\<rparr> else rw)"

definition Write :: "string \<Rightarrow> response_writer \<Rightarrow> response_writer" where
  "Write bs rw = (let rw1 = WriteHeader 200 rw in rw1\<lparr>body := body rw1 @ bs\<rparr>)"

text \<open>
  \<^verbatim>\<open>http.Error(w, error, code)\<close> sets the two headers, writes the status and prints the
  message followed by a newline.
\<close>

definition http_Error :: "response_writer \<Rightarrow> string \<Rightarrow> nat \<Rightarrow> response_writer" where
  "http_Error rw err code =
     Write (err @ [CHR 0x0A])
       (WriteHeader code
         (Header_Set ''X-Content-Type-Options'' ''nosniff''
           (Header_Set ''Content-Type'' ''text/plain; charset=utf-8'' rw)))"

text \<open>
  \<^verbatim>\<open>Handler\<close>. \<open>json_Decode\<close> is \<^verbatim>\<open>json.NewDecoder(r.Body).Decode(&params)\<close>,
  \<open>Exec\<close> is \<^verbatim>\<open>graphqlSchema.Exec\<close> (which runs the resolvers, so it acts on the world
  and need not return), \<open>json_Marshal\<close> is \<^verbatim>\<open>json.Marshal\<close>; an error is \<open>Inl\<close> of its
  message.
\<close>

definition Handler ::
  "(string \<Rightarrow> string + 'v params) \<Rightarrow>
   (string \<Rightarrow> string \<Rightarrow> (string \<rightharpoonup> 'v) \<Rightarrow> world \<Rightarrow> 'r outcome) \<Rightarrow>
   ('r \<Rightarrow> string + string) \<Rightarrow>
   response_writer \<Rightarrow> request \<Rightarrow> world \<Rightarrow> response_writer outcome" where
  "Handler json_Decode Exec json_Marshal rw r w =
     (case json_Decode (Body r) of
        Inl err \<Rightarrow> Returned (http_Error rw err 400) w
      | Inr params \<Rightarrow>
          (case Exec (Query params) (OperationName params) (Variables params) w of
             Exited w1 \<Rightarrow> Exited w1
           | Panicked w1 \<Rightarrow> Panicked w1
           | Returned response w1 \<Rightarrow>
               (case json_Marshal response of
                  Inl err \<Rightarrow> Returned (http_Error rw err 500) w1
                | Inr responseJSON \<Rightarrow>
                    Returned (Write responseJSON
                               (Header_Set ''Content-Type'' ''application/json'' rw)) w1)))"

subsection \<open>Notions used in the statements\<close>

text \<open>The error result the next driver call will get, and the world after a driver call.\<close>

definition next_fault :: "world \<Rightarrow> string option" where
  "next_fault w = (case faults w of [] \<Rightarrow> None | f # _ \<Rightarrow> f)"

definition advance :: "call \<Rightarrow> world \<Rightarrow> world" where
  "advance c w = w\<lparr>faults := tl (faults w), calls := calls w @ [c]\<rparr>"

text \<open>The next \<open>n\<close> driver calls succeed.\<close>

definition no_fault :: "nat \<Rightarrow> world \<Rightarrow> bool" where
  "no_fault n w = list_all (\<lambda>f. f = None) (take n (faults w))"

definition uri_of :: "world \<Rightarrow> string" where
  "uri_of w = connection_string (environ w ''USER'') (environ w ''PWD'') (environ w ''HOST'')"

fun returned :: "'a outcome \<Rightarrow> 'a option" where
  "returned (Returned x _) = Some x"
| "returned _ = None"

text \<open>The documents a find by slug yields, in cursor order.\<close>

definition found :: "string \<Rightarrow> world \<Rightarrow> bson_doc list" where
  "found slug w =
     filter (matches [(''slug'', String slug)]) (store w (''graphql-mongo-zeit'', ''post''))"

fun call_database :: "call \<Rightarrow> string option" where
  "call_database (Connect _) = None"
| "call_database (DeleteMany c _) = Some (database c)"
| "call_database (InsertMany c _) = Some (database c)"
| "call_database (Find c _) = Some (database c)"

text \<open>A world with nothing stored, nothing configured and no failure scheduled.\<close>

definition empty_world :: world where
  "empty_world =
     \<lparr>environ = (\<lambda>_. []), store = (\<lambda>_. []), faults = [], calls = [], stderr = [], stdout = []\<rparr>"

text \<open>
  A world whose \<open>post\<close> collection holds the three mock documents, and one whose
  \<open>post\<close> collection holds two documents with the same slug.
\<close>

definition seeded_world :: world where
  "seeded_world = empty_world\<lparr>store := (\<lambda>_. [])((''graphql-mongo-zeit'', ''post'') := mock_data)\<rparr>"

definition doc_a :: bson_doc where
  "doc_a = [(''ID'', Int32 1), (''title'', String ''A''), (''slug'', String ''dup'')]"

definition doc_b :: bson_doc where
  "doc_b = [(''ID'', Int32 2), (''title'', String ''B''), (''slug'', String ''dup'')]"

definition dup_world :: world where
  "dup_world = empty_world\<lparr>store := (\<lambda>_. [])((''graphql-mongo-zeit'', ''post'') := [doc_a, doc_b])\<rparr>"



definition insert_failure_world :: world where
  "insert_failure_world = seeded_world\<lparr>faults := [None, None, None, Some ''write error'']\<rparr>"

text \<open>The driver calls of a complete run of \<^verbatim>\<open>init\<close>, in order.\<close>

definition init_calls :: "world \<Rightarrow> call list" where
  "init_calls w =
     [Connect (uri_of w), Connect (uri_of w),
      DeleteMany \<lparr>database = ''graphql-mongo-zeit'', coll = ''post''\<rparr> [],
      InsertMany \<lparr>database = ''graphql-mongo-zeit'', coll = ''posts''\<rparr> mock_data]"

text \<open>
  A call is on the fixed database when it names no database or names
  \<open>graphql-mongo-zeit\<close>. A run from \<open>w\<close> to \<open>w'\<close> is confined to that database when the
  calls it adds are all on it and the collections of every other database are as before.
\<close>

definition on_fixed_database :: "call \<Rightarrow> bool" where
  "on_fixed_database c =
     (case call_database c of None \<Rightarrow> True | Some d \<Rightarrow> d = ''graphql-mongo-zeit'')"

definition confined :: "world \<Rightarrow> world \<Rightarrow> bool" where
  "confined w w' \<longleftrightarrow>
     (\<exists>cs. calls w' = calls w @ cs \<and> list_all on_fixed_database cs) \<and>
     (\<forall>d c. d \<noteq> ''graphql-mongo-zeit'' \<longrightarrow> store w' (d, c) = store w (d, c))"

text \<open>
  A fresh response writer; a body decoder that rejects every body and one that takes the
  body as the query text; an executor that ends the process and one that answers with the
  query text; a serialiser that succeeds and one that fails.
\<close>

definition new_response :: response_writer where
  "new_response = \<lparr>header = Map.empty, status = None, body = []\<rparr>"

definition reject_all :: "string \<Rightarrow> string + unit params" where
  "reject_all b = Inl ''unexpected EOF''"

definition accept_all :: "string \<Rightarrow> string + unit params" where
  "accept_all b = Inr \<lparr>Query = b, OperationName = [], Variables = Map.empty\<rparr>"

definition exec_exit :: "string \<Rightarrow> string \<Rightarrow> (string \<rightharpoonup> unit) \<Rightarrow> world \<Rightarrow> string outcome" where
  "exec_exit q n v w = Exited w"

definition exec_echo :: "string \<Rightarrow> string \<Rightarrow> (string \<rightharpoonup> unit) \<Rightarrow> world \<Rightarrow> string outcome" where
  "exec_echo q n v w = Returned q w"

definition marshal_ok :: "string \<Rightarrow> string + string" where
  "marshal_ok r = Inr r"

definition marshal_fail :: "string \<Rightarrow> string + string" where
  "marshal_fail r = Inl ''json: unsupported value''"

section \<open>Basic facts\<close>

lemma driver_call_eq: "driver_call c w = (next_fault w, advance c w)"
  by (simp add: driver_call_def next_fault_def advance_def split: list.splits)

lemma GetMongo_eq:
  "GetMongo col w =
     (case next_fault w of
        Some e \<Rightarrow> Exited ((advance (Connect (uri_of w)) w)\<lparr>stderr := stderr w @ [e]\<rparr>)
      | None \<Rightarrow> Returned \<lparr>database = ''graphql-mongo-zeit'', coll = col\<rparr>
                  (advance (Connect (uri_of w)) w))"
  by (simp add: GetMongo_def mongo_Connect_def driver_call_eq log_Fatal_def uri_of_def
      advance_def Let_def split: option.splits)

lemma advance_sel [simp]:
  "store (advance c w) = store w"
  "environ (advance c w) = environ w"
  "stderr (advance c w) = stderr w"
  "stdout (advance c w) = stdout w"
  "calls (advance c w) = calls w @ [c]"
  "faults (advance c w) = tl (faults w)"
  by (simp_all add: advance_def)

lemma log_Println_sel [simp]:
  "store (log_Println m w) = store w"
  "environ (log_Println m w) = environ w"
  "stderr (log_Println m w) = stderr w @ [m]"
  "stdout (log_Println m w) = stdout w"
  "calls (log_Println m w) = calls w"
  "faults (log_Println m w) = faults w"
  by (simp_all add: log_Println_def)

lemma uri_of_advance [simp]: "uri_of (advance c w) = uri_of w"
  by (simp add: uri_of_def)

lemma no_fault_Suc:
  "no_fault (Suc n) w \<longleftrightarrow> next_fault w = None \<and> no_fault n (advance c w)"
  by (cases "faults w") (simp_all add: no_fault_def next_fault_def advance_def)

lemma no_fault_mono: "m \<le> n \<Longrightarrow> no_fault n w \<Longrightarrow> no_fault m w"
  using set_take_subset_set_take [of m n "faults w"]
  by (auto simp add: no_fault_def list_all_iff)

lemma no_fault_log [simp]:
  "no_fault n (log_Println m w) = no_fault n w"
  "next_fault (log_Println m w) = next_fault w"
  "uri_of (log_Println m w) = uri_of w"
  by (simp_all add: no_fault_def next_fault_def uri_of_def)

lemma no_fault_store [simp]:
  "no_fault n (w\<lparr>store := st\<rparr>) = no_fault n w"
  "next_fault (w\<lparr>store := st\<rparr>) = next_fault w"
  by (simp_all add: no_fault_def next_fault_def)

lemma Post_ok:
  assumes "no_fault 2 w"
  shows "Post dec a w =
           Returned (Some \<lparr>s = Some (decode_all dec (found (arg_Slug a) w) new_post)\<rparr>)
             (advance (Find \<lparr>database = ''graphql-mongo-zeit'', coll = ''post''\<rparr>
                         [(''slug'', String (arg_Slug a))])
                (advance (Connect (uri_of w)) w))"
proof -
  let ?w1 = "advance (Connect (uri_of w)) w"
  from assms have a: "next_fault w = None" and b: "no_fault 1 ?w1"
    using no_fault_Suc [of 1 w] by (simp_all add: numeral_2_eq_2)
  from b have c: "next_fault ?w1 = None"
    using no_fault_Suc [of 0 ?w1] by simp
  show ?thesis
    by (simp add: Post_def GetMongo_eq a collection_Find_def driver_call_eq c found_def)
qed

lemma Cleanup_ok:
  assumes "no_fault 2 w"
  shows "Cleanup col w =
           Returned ()
             ((advance (DeleteMany \<lparr>database = ''graphql-mongo-zeit'', coll = col\<rparr> [])
                (advance (Connect (uri_of w)) (log_Println ''Cleaning up MongoDB...'' w)))
              \<lparr>store := (store w)((''graphql-mongo-zeit'', col) := [])\<rparr>)"
proof -
  let ?w0 = "log_Println ''Cleaning up MongoDB...'' w"
  let ?w1 = "advance (Connect (uri_of w)) ?w0"
  from assms have a: "next_fault w = None" and b: "no_fault 1 ?w1"
    using no_fault_Suc [of 1 ?w0] by (simp_all add: numeral_2_eq_2)
  from b have c: "next_fault ?w1 = None"
    using no_fault_Suc [of 0 ?w1] by simp
  show ?thesis
    by (simp add: Cleanup_def GetMongo_eq a collection_DeleteMany_def driver_call_eq c matches_def)
qed

lemma init_ok:
  assumes "no_fault 4 w"
  shows "\<exists>w'. init w = Returned () w' \<and>
           store w' = (store w)((''graphql-mongo-zeit'', ''post'') := [],
                               (''graphql-mongo-zeit'', ''posts'') :=
                                  store w (''graphql-mongo-zeit'', ''posts'') @ mock_data) \<and>
           faults w' = drop 4 (faults w) \<and>
           environ w' = environ w \<and>
           calls w' = calls w @
             [Connect (uri_of w), Connect (uri_of w),
              DeleteMany \<lparr>database = ''graphql-mongo-zeit'', coll = ''post''\<rparr> [],
              InsertMany \<lparr>database = ''graphql-mongo-zeit'', coll = ''posts''\<rparr> mock_data] \<and>
           stderr w' = stderr w @
             [''Seeding mock data to MongoDB'', ''Cleaning up MongoDB...'',
              ''Mock data added successfully!''] \<and>
           stdout w' = stdout w"
proof -
  let ?db = "''graphql-mongo-zeit''"
  let ?w0 = "log_Println ''Seeding mock data to MongoDB'' w"
  let ?w1 = "advance (Connect (uri_of w)) ?w0"
  let ?w1' = "log_Println ''Cleaning up MongoDB...'' ?w1"
  let ?w2' = "advance (DeleteMany \<lparr>database = ?db, coll = ''post''\<rparr> [])
                (advance (Connect (uri_of w)) ?w1')"
  let ?w2 = "?w2'\<lparr>store := (store w)((?db, ''post'') := [])\<rparr>"
  let ?w3 = "(advance (InsertMany \<lparr>database = ?db, coll = ''posts''\<rparr> mock_data) ?w2)
              \<lparr>store := (store ?w2)((?db, ''posts'') := store ?w2 (?db, ''posts'') @ mock_data)\<rparr>"
  from assms have a: "next_fault w = None" and b: "no_fault 3 ?w1"
    using no_fault_Suc [of 3 ?w0] by (simp_all add: eval_nat_numeral)
  from b have b2: "no_fault 2 ?w1"
    by (rule no_fault_mono [rotated]) simp
  from b have "no_fault 1 (advance c (advance c' ?w1'))" for c c'
    using no_fault_Suc [of 2 ?w1' c'] no_fault_Suc [of 1 "advance c' ?w1'" c]
    by (simp add: eval_nat_numeral)
  then have d: "next_fault ?w2' = None"
    using no_fault_Suc [of 0 ?w2'] by simp
  have g: "GetMongo ''posts'' ?w0 = Returned \<lparr>database = ?db, coll = ''posts''\<rparr> ?w1"
    by (simp add: GetMongo_eq a)
  have c: "Cleanup ''post'' ?w1 = Returned () ?w2"
    using Cleanup_ok [OF b2, of "''post''"] by simp
  have i: "collection_InsertMany \<lparr>database = ?db, coll = ''posts''\<rparr> mock_data ?w2 = (None, ?w3)"
    by (simp add: collection_InsertMany_def driver_call_eq d)
  have r: "init w = Returned () (log_Println ''Mock data added successfully!'' ?w3)"
    by (simp add: init_def g c i)
  have f: "faults (log_Println ''Mock data added successfully!'' ?w3) = drop 4 (faults w)"
    by (simp add: drop_Suc eval_nat_numeral tl_drop)
  show ?thesis
    unfolding r by (intro exI conjI, rule refl, simp, rule f) simp_all
qed

lemma no_fault_empty [simp]: "no_fault n empty_world" "no_fault n seeded_world"
  by (simp_all add: no_fault_def empty_world_def seeded_world_def)

lemma empty_world_sel [simp]:
  "store empty_world = (\<lambda>_. [])"
  "faults empty_world = []"
  "calls empty_world = []"
  "stderr empty_world = []"
  "stdout empty_world = []"
  "environ empty_world = (\<lambda>_. [])"
  by (simp_all add: empty_world_def)

lemma no_fault_Nil: "faults w = [] \<Longrightarrow> no_fault n w"
  by (simp add: no_fault_def)

lemma decode_all_last:
  assumes "ds \<noteq> []" and "\<forall>d\<in>set ds. \<forall>p. dec d p = dec d q"
  shows "decode_all dec ds p = dec (last ds) q"
  using assms
proof (induction ds arbitrary: p)
  case Nil
  from Nil(1) show ?case by blast
next
  case (Cons d ds)
  have over: "dec x y = dec x q" if "x \<in> set (d # ds)" for x y
    using Cons.prems(2) that by blast
  show ?case
  proof (cases "ds = []")
    case True
    have "dec d p = dec d q" by (rule over) (simp only: list.set_intros)
    with True show ?thesis by (simp only: decode_all.simps last_ConsL)
  next
    case False
    have "\<forall>x\<in>set ds. \<forall>y. dec x y = dec x q"
    proof (intro ballI allI)
      fix x y
      assume "x \<in> set ds"
      then have "x \<in> set (d # ds)" by (rule list.set_intros(2))
      then show "dec x y = dec x q" by (rule over)
    qed
    from Cons.IH [OF False this, of "dec d p"]
    show ?thesis by (simp only: decode_all.simps last_ConsR [OF False])
  qed
qed

lemma dup_world_sel [simp]:
  "no_fault n dup_world"
  "found ''dup'' dup_world = [doc_a, doc_b]"
  by (simp_all add: no_fault_def dup_world_def found_def matches_def doc_a_def doc_b_def)

lemma decimal_digit: "n < 10 \<Longrightarrow> decimal n = [digit n]"
  by (simp add: decimal.simps)

lemma Decode_doc [simp]:
  "Decode doc_a p = \<lparr>ID = ''1'', Slug = ''dup'', Title = ''A''\<rparr>"
  "Decode doc_b p = \<lparr>ID = ''2'', Slug = ''dup'', Title = ''B''\<rparr>"
  by (cases p; simp add: Decode_def doc_a_def doc_b_def itoa_def decimal_digit)+

lemma next_fault_Cons [simp]: "faults w = f # fs \<Longrightarrow> next_fault w = f"
  by (simp add: next_fault_def)

lemma next_fault_advance_Cons [simp]:
  "faults w = f # g # fs \<Longrightarrow> next_fault (advance c w) = g"
  by (simp add: next_fault_def)



lemma next_fault_advance3 [simp]:
  "faults w = f # g # h # fs \<Longrightarrow> next_fault (advance c (advance c' w)) = h"
  by (simp add: next_fault_def)

lemma next_fault_advance4 [simp]:
  "faults w = f # g # h # k # fs \<Longrightarrow> next_fault (advance c (advance c' (advance c'' w))) = k"
  by (simp add: next_fault_def)

lemma init_fail_0:
  assumes "faults w = Some e # fs"
  shows "init w = Exited ((advance (Connect (uri_of w)) w)
                   \<lparr>stderr := stderr w @ [''Seeding mock data to MongoDB'', e]\<rparr>)"
  using assms by (simp add: init_def GetMongo_eq next_fault_def advance_def log_Println_def uri_of_def)

lemma init_fail_1:
  assumes "faults w = None # Some e # fs"
  shows "init w = Exited ((advance (Connect (uri_of w)) (advance (Connect (uri_of w)) w))
                   \<lparr>stderr := stderr w @
                      [''Seeding mock data to MongoDB'', ''Cleaning up MongoDB...'', e]\<rparr>)"
  using assms
  by (simp add: init_def Cleanup_def GetMongo_eq next_fault_def advance_def log_Println_def uri_of_def)

lemma init_fail_2:
  assumes "faults w = None # None # Some e # fs"
  shows "init w =
           Exited ((advance (DeleteMany \<lparr>database = ''graphql-mongo-zeit'', coll = ''post''\<rparr> [])
                     (advance (Connect (uri_of w)) (advance (Connect (uri_of w)) w)))
                   \<lparr>stderr := stderr w @
                      [''Seeding mock data to MongoDB'', ''Cleaning up MongoDB...'', e]\<rparr>)"
  using assms
  by (simp add: init_def Cleanup_def GetMongo_eq collection_DeleteMany_def driver_call_eq
      log_Fatal_def next_fault_def advance_def log_Println_def uri_of_def)

lemma init_fail_3:
  assumes "faults w = None # None # None # Some e # fs"
  shows "init w =
           Exited ((advance (InsertMany \<lparr>database = ''graphql-mongo-zeit'', coll = ''posts''\<rparr> mock_data)
                     (advance (DeleteMany \<lparr>database = ''graphql-mongo-zeit'', coll = ''post''\<rparr> [])
                       (advance (Connect (uri_of w)) (advance (Connect (uri_of w)) w))))
                   \<lparr>store := (store w)((''graphql-mongo-zeit'', ''post'') := []),
                     stderr := stderr w @
                      [''Seeding mock data to MongoDB'', ''Cleaning up MongoDB...'', e]\<rparr>)"
  using assms
  by (simp add: init_def Cleanup_def GetMongo_eq collection_DeleteMany_def driver_call_eq
      collection_InsertMany_def matches_def
      log_Fatal_def next_fault_def advance_def log_Println_def uri_of_def)

lemma GetMongo_database:
  "GetMongo col w = Returned c w' \<Longrightarrow> database c = ''graphql-mongo-zeit''"
  by (auto simp add: GetMongo_eq split: option.splits)

lemma Cleanup_confined: "confined w (world_of (Cleanup col w))"
  by (simp add: confined_def Cleanup_def GetMongo_eq collection_DeleteMany_def driver_call_eq
      log_Fatal_def on_fixed_database_def split: option.splits)

lemma Post_confined: "confined w (world_of (Post dec a w))"
  by (simp add: confined_def Post_def GetMongo_eq collection_Find_def driver_call_eq
      fmt_Println_def on_fixed_database_def split: option.splits)

lemma init_confined: "confined w (world_of (init w))"
  by (simp add: confined_def init_def Cleanup_def GetMongo_eq collection_DeleteMany_def
      collection_InsertMany_def driver_call_eq
      log_Fatal_def on_fixed_database_def split: option.splits)

lemma http_Error_fresh:
  assumes "status rw = None"
  shows "status (http_Error rw err code) = Some code"
    and "body (http_Error rw err code) = body rw @ err @ [CHR 0x0A]"
    and "header (http_Error rw err code) ''Content-Type'' = Some [''text/plain; charset=utf-8'']"
  using assms by (simp_all add: http_Error_def Write_def WriteHeader_def Header_Set_def Let_def)

section \<open>The resolver\<close>

text \<open>
  C9: for every slug argument and every content of the store, \<^verbatim>\<open>Post\<close> returns a non-nil
  resolver. No run of \<^verbatim>\<open>Post\<close> returns nil, and when the connection and the query
  succeed it returns a resolver around a post; when no document matched the slug, that post
  is the freshly allocated one, with empty id, slug and title.
\<close>

theorem Post_always_non_nil:
  "(\<forall>w'. Post dec a w \<noteq> Returned None w') \<and>
   (no_fault 2 w \<longrightarrow>
      (\<exists>p w'. Post dec a w = Returned (Some \<lparr>s = Some p\<rparr>) w' \<and>
              (found (arg_Slug a) w = [] \<longrightarrow> p = new_post)))"
proof (intro conjI allI impI)
  fix w'
  show "Post dec a w \<noteq> Returned None w'"
    by (simp add: Post_def GetMongo_eq collection_Find_def driver_call_eq Let_def
        split: option.splits)
next
  assume "no_fault 2 w"
  from Post_ok [OF this, of dec a]
  show "\<exists>p w'. Post dec a w = Returned (Some \<lparr>s = Some p\<rparr>) w' \<and>
          (found (arg_Slug a) w = [] \<longrightarrow> p = new_post)"
    by auto
qed

theorem Post_always_non_nil_witness:
  "no_fault 2 empty_world \<and> found ''nonexistent'' empty_world = [] \<and>
   (\<exists>w'. Post Decode \<lparr>arg_Slug = ''nonexistent''\<rparr> empty_world =
            Returned (Some \<lparr>s = Some new_post\<rparr>) w')"
  using Post_always_non_nil [of Decode "\<lparr>arg_Slug = ''nonexistent''\<rparr>" empty_world]
  by (auto simp add: found_def empty_world_def no_fault_def)

text \<open>
  C2: a slug that matches no document of the store should give an absent result. Evaluated
  on the world holding the three mock documents, the slug \<open>nonexistent\<close> matches nothing
  and \<^verbatim>\<open>Post\<close> returns a resolver around the zero-valued post, not nil.
\<close>

theorem Post_unknown_slug_zero_post:
  "found ''nonexistent'' seeded_world = [] \<and>
   returned (Post Decode \<lparr>arg_Slug = ''nonexistent''\<rparr> seeded_world) =
     Some (Some \<lparr>s = Some \<lparr>ID = '''', Slug = '''', Title = ''''\<rparr>\<rparr>)"
proof -
  have f: "found ''nonexistent'' seeded_world = []"
    by (simp add: found_def seeded_world_def mock_data_def matches_def)
  show ?thesis
    by (simp add: Post_ok f new_post_def)
qed

text \<open>
  C6 as stated fails: with two documents of the same slug in the collection, the resolver
  returns the post decoded from the second document, not the one decoded from the first.
\<close>

theorem Post_first_match_counterexample:
  "found ''dup'' dup_world = [doc_a, doc_b] \<and>
   Decode doc_a new_post = \<lparr>ID = ''1'', Slug = ''dup'', Title = ''A''\<rparr> \<and>
   returned (Post Decode \<lparr>arg_Slug = ''dup''\<rparr> dup_world) =
     Some (Some \<lparr>s = Some \<lparr>ID = ''2'', Slug = ''dup'', Title = ''B''\<rparr>\<rparr>) \<and>
   returned (Post Decode \<lparr>arg_Slug = ''dup''\<rparr> dup_world) \<noteq>
     Some (Some \<lparr>s = Some (Decode doc_a new_post)\<rparr>)"
  by (simp add: Post_ok)

text \<open>
  C6, amended: for every slug for which the query yields one or more documents (connection
  and query succeeding), the resolver decodes every document the cursor yields, in cursor
  order, into the same record and returns that record; when decoding a document overwrites
  the whole record, the post returned is the one of the last document of the cursor.
\<close>

theorem Post_decodes_every_match:
  assumes "no_fault 2 w" and "found (arg_Slug a) w \<noteq> []"
  shows "returned (Post dec a w) =
           Some (Some \<lparr>s = Some (decode_all dec (found (arg_Slug a) w) new_post)\<rparr>) \<and>
         ((\<forall>d\<in>set (found (arg_Slug a) w). \<forall>p. dec d p = dec d new_post) \<longrightarrow>
            returned (Post dec a w) =
              Some (Some \<lparr>s = Some (dec (last (found (arg_Slug a) w)) new_post)\<rparr>))"
proof (intro conjI impI)
  show r: "returned (Post dec a w) =
      Some (Some \<lparr>s = Some (decode_all dec (found (arg_Slug a) w) new_post)\<rparr>)"
    by (simp only: Post_ok [OF assms(1)] returned.simps)
  assume "\<forall>d\<in>set (found (arg_Slug a) w). \<forall>p. dec d p = dec d new_post"
  with assms(2)
  have "decode_all dec (found (arg_Slug a) w) new_post = dec (last (found (arg_Slug a) w)) new_post"
    by (rule decode_all_last)
  with r show "returned (Post dec a w) =
      Some (Some \<lparr>s = Some (dec (last (found (arg_Slug a) w)) new_post)\<rparr>)"
    by (simp only:)
qed

theorem Post_decodes_every_match_witness:
  "no_fault 2 dup_world \<and> found ''dup'' dup_world = [doc_a, doc_b] \<and>
   returned (Post Decode \<lparr>arg_Slug = ''dup''\<rparr> dup_world) =
     Some (Some \<lparr>s = Some (decode_all Decode [doc_a, doc_b] new_post)\<rparr>) \<and>
   returned (Post Decode \<lparr>arg_Slug = ''dup''\<rparr> dup_world) =
     Some (Some \<lparr>s = Some (Decode doc_b new_post)\<rparr>)"
  using Post_decodes_every_match [of dup_world "\<lparr>arg_Slug = ''dup''\<rparr>" Decode]
  by simp




section \<open>Startup seeding\<close>

text \<open>
  C1: after seeding, the query for a seeded slug should return the seeded post. Evaluated on
  the empty world: seeding returns, the three documents are in the collection \<open>posts\<close>, the
  collection \<open>post\<close> that the resolver reads is empty, and the resolver's answer for
  \<open>first-post\<close> is the zero-valued post.
\<close>

theorem seeded_slug_not_found:
  "returned (init empty_world) = Some () \<and>
   store (world_of (init empty_world)) (''graphql-mongo-zeit'', ''posts'') = mock_data \<and>
   store (world_of (init empty_world)) (''graphql-mongo-zeit'', ''post'') = [] \<and>
   returned (Post Decode \<lparr>arg_Slug = ''first-post''\<rparr> (world_of (init empty_world))) =
     Some (Some \<lparr>s = Some \<lparr>ID = '''', Slug = '''', Title = ''''\<rparr>\<rparr>)"
proof -
  obtain w1 where r: "init empty_world = Returned () w1"
    and st: "store w1 = (store empty_world)((''graphql-mongo-zeit'', ''post'') := [],
               (''graphql-mongo-zeit'', ''posts'') :=
                  store empty_world (''graphql-mongo-zeit'', ''posts'') @ mock_data)"
    and fl: "faults w1 = drop 4 (faults empty_world)"
    using init_ok [of empty_world] by auto
  from fl have nf: "no_fault 2 w1"
    by (simp add: no_fault_Nil)
  have f: "found ''first-post'' w1 = []"
    by (simp add: found_def st)
  show ?thesis
    by (simp add: r st Post_ok [OF nf] f new_post_def)
qed

text \<open>
  C3: seeding should leave exactly the three fixed documents, also when it runs again.
  Evaluated on the empty world: two runs of \<^verbatim>\<open>init\<close> both return and leave six documents
  in \<open>posts\<close>, the mock data twice, since the collection cleared is \<open>post\<close>.
\<close>

theorem init_twice_six_documents:
  "returned (init empty_world) = Some () \<and>
   returned (init (world_of (init empty_world))) = Some () \<and>
   store (world_of (init (world_of (init empty_world)))) (''graphql-mongo-zeit'', ''posts'') =
     mock_data @ mock_data \<and>
   length (store (world_of (init (world_of (init empty_world))))
             (''graphql-mongo-zeit'', ''posts'')) = 6"
proof -
  obtain w1 where r1: "init empty_world = Returned () w1"
    and st1: "store w1 = (store empty_world)((''graphql-mongo-zeit'', ''post'') := [],
               (''graphql-mongo-zeit'', ''posts'') :=
                  store empty_world (''graphql-mongo-zeit'', ''posts'') @ mock_data)"
    and fl: "faults w1 = drop 4 (faults empty_world)"
    using init_ok [of empty_world] by auto
  from fl have nf: "no_fault 4 w1"
    by (simp add: no_fault_Nil)
  obtain w2 where r2: "init w1 = Returned () w2"
    and st2: "store w2 = (store w1)((''graphql-mongo-zeit'', ''post'') := [],
               (''graphql-mongo-zeit'', ''posts'') :=
                  store w1 (''graphql-mongo-zeit'', ''posts'') @ mock_data)"
    using init_ok [OF nf] by auto
  show ?thesis
    by (simp add: r1 r2 st2 st1) (simp add: mock_data_def)
qed

text \<open>
  C8: during startup seeding, a failure of either connect, of the delete-all or of the
  insert ends the process at once: the failing call is the last driver call made, the error
  is the last line logged, and the success line is never written.
\<close>

theorem init_failure_is_fatal:
  assumes "faults w = replicate i None @ Some e # fs" and "i < 4"
  shows "\<exists>w'. init w = Exited w' \<and>
           faults w' = fs \<and>
           calls w' = calls w @ take (Suc i) (init_calls w) \<and>
           stderr w' = stderr w @ ''Seeding mock data to MongoDB'' #
                         (if 0 < i then [''Cleaning up MongoDB...''] else []) @ [e] \<and>
           stdout w' = stdout w"
proof -
  from assms(2) consider "i = 0" | "i = 1" | "i = 2" | "i = 3" by linarith
  then show ?thesis
  proof cases
    case 1
    with assms(1) have f: "faults w = Some e # fs" by simp
    show ?thesis by (simp add: init_fail_0 [OF f] 1 f init_calls_def)
  next
    case 2
    with assms(1) have f: "faults w = None # Some e # fs" by simp
    show ?thesis by (simp add: init_fail_1 [OF f] 2 f init_calls_def)
  next
    case 3
    with assms(1) have f: "faults w = None # None # Some e # fs"
      by (simp add: eval_nat_numeral)
    show ?thesis by (simp add: init_fail_2 [OF f] 3 f init_calls_def)
  next
    case 4
    with assms(1) have f: "faults w = None # None # None # Some e # fs"
      by (simp add: eval_nat_numeral)
    show ?thesis by (simp add: init_fail_3 [OF f] 4 f init_calls_def)
  qed
qed

theorem init_failure_is_fatal_witness:
  "faults insert_failure_world = replicate 3 None @ Some ''write error'' # [] \<and>
   terminated (init insert_failure_world) \<and>
   stderr (world_of (init insert_failure_world)) =
     [''Seeding mock data to MongoDB'', ''Cleaning up MongoDB...'', ''write error''] \<and>
   calls (world_of (init insert_failure_world)) = init_calls insert_failure_world"
proof -
  have f: "faults insert_failure_world = replicate 3 None @ Some ''write error'' # []"
    by (simp add: insert_failure_world_def eval_nat_numeral)
  have c: "calls insert_failure_world = []" "stderr insert_failure_world = []"
    by (simp_all add: insert_failure_world_def seeded_world_def)
  from init_failure_is_fatal [OF f] c f show ?thesis
    by (auto simp add: init_calls_def)
qed

section \<open>The database reached\<close>

text \<open>
  C10: every database operation of the program targets the database \<open>graphql-mongo-zeit\<close>:
  every handle \<^verbatim>\<open>GetMongo\<close> returns is on it, and every run of \<^verbatim>\<open>Cleanup\<close>,
  \<^verbatim>\<open>init\<close> and \<^verbatim>\<open>Post\<close>, failing or not, is confined to it.
\<close>

theorem single_fixed_database:
  "(\<forall>c w'. GetMongo col w = Returned c w' \<longrightarrow> database c = ''graphql-mongo-zeit'') \<and>
   confined w (world_of (Cleanup col w)) \<and>
   confined w (world_of (init w)) \<and>
   confined w (world_of (Post dec a w))"
  using GetMongo_database [of col w] Cleanup_confined [of w col] init_confined [of w]
    Post_confined [of w dec a]
  by blast

theorem single_fixed_database_witness:
  "GetMongo ''anything'' empty_world =
     Returned \<lparr>database = ''graphql-mongo-zeit'', coll = ''anything''\<rparr>
       (advance (Connect ''mongodb://:@'') empty_world) \<and>
   map call_database (calls (world_of (init empty_world))) =
     [None, None, Some ''graphql-mongo-zeit'', Some ''graphql-mongo-zeit''] \<and>
   store (world_of (init empty_world)) (''other'', ''posts'') = [] \<and>
   confined empty_world (world_of (Post Decode \<lparr>arg_Slug = ''first-post''\<rparr> empty_world))"
proof -
  note t = single_fixed_database [of "''anything''" empty_world Decode "\<lparr>arg_Slug = ''first-post''\<rparr>"]
  have g: "GetMongo ''anything'' empty_world =
     Returned \<lparr>database = ''graphql-mongo-zeit'', coll = ''anything''\<rparr>
       (advance (Connect ''mongodb://:@'') empty_world)"
    by (simp add: GetMongo_eq next_fault_def uri_of_def connection_string_def)
  obtain w1 where r: "init empty_world = Returned () w1"
    and c: "calls w1 = calls empty_world @
             [Connect (uri_of empty_world), Connect (uri_of empty_world),
              DeleteMany \<lparr>database = ''graphql-mongo-zeit'', coll = ''post''\<rparr> [],
              InsertMany \<lparr>database = ''graphql-mongo-zeit'', coll = ''posts''\<rparr> mock_data]"
    using init_ok [of empty_world] by auto
  from t have "confined empty_world (world_of (init empty_world))" by blast
  then have st: "store (world_of (init empty_world)) (''other'', ''posts'') = []"
    by (simp add: confined_def)
  from t g r c st show ?thesis by simp
qed

section \<open>The HTTP handler\<close>

text \<open>
  C4: when the request body fails to decode, the handler answers a fresh response with
  status 400 and a non-empty body, the decode error message followed by a newline; the
  answer is the same whatever the executor is and the world is untouched, so the query is
  not executed.
\<close>

theorem Handler_bad_request:
  assumes "json_Decode (Body r) = Inl err" and "status rw = None"
  shows "\<exists>rw'. (\<forall>Exec. Handler json_Decode Exec json_Marshal rw r w = Returned rw' w) \<and>
           status rw' = Some 400 \<and>
           body rw' = body rw @ err @ [CHR 0x0A] \<and>
           body rw' \<noteq> []"
proof (intro exI conjI allI)
  fix Exec :: "string \<Rightarrow> string \<Rightarrow> (string \<rightharpoonup> 'a) \<Rightarrow> world \<Rightarrow> 'b outcome"
  show "Handler json_Decode Exec json_Marshal rw r w = Returned (http_Error rw err 400) w"
    by (simp add: Handler_def assms(1))
  show "status (http_Error rw err 400) = Some 400"
    by (rule http_Error_fresh [OF assms(2)])
  show "body (http_Error rw err 400) = body rw @ err @ [CHR 0x0A]"
    by (rule http_Error_fresh [OF assms(2)])
  then show "body (http_Error rw err 400) \<noteq> []" by simp
qed

theorem Handler_bad_request_witness:
  "reject_all (Body \<lparr>Body = ''{\"query\": ''\<rparr>) = Inl ''unexpected EOF'' \<and>
   status new_response = None \<and>
   returned (Handler reject_all exec_exit marshal_ok new_response \<lparr>Body = ''{\"query\": ''\<rparr> empty_world) =
     Some \<lparr>header = [''Content-Type'' \<mapsto> [''text/plain; charset=utf-8''],
                      ''X-Content-Type-Options'' \<mapsto> [''nosniff'']],
           status = Some 400,
           body = ''unexpected EOF'' @ [CHR 0x0A]\<rparr>"
proof -
  have a: "reject_all (Body \<lparr>Body = ''{\"query\": ''\<rparr>) = Inl ''unexpected EOF''"
    by (simp add: reject_all_def)
  have b: "status new_response = None" by (simp add: new_response_def)
  from Handler_bad_request [where json_Decode = reject_all and err = "''unexpected EOF''"
      and r = "\<lparr>Body = ''{\"query\": ''\<rparr>" and rw = new_response
      and json_Marshal = marshal_ok and w = empty_world, OF a b]
  obtain rw' where h: "Handler reject_all exec_exit marshal_ok new_response \<lparr>Body = ''{\"query\": ''\<rparr> empty_world = Returned rw' empty_world"
    by blast
  then have "rw' = http_Error new_response ''unexpected EOF'' 400"
    by (simp add: Handler_def reject_all_def)
  with h a b show ?thesis
    by (simp add: http_Error_def Write_def WriteHeader_def Header_Set_def new_response_def)
qed

text \<open>
  C7: when the body decodes and the executor returns a response, a successful serialisation
  gives status 200, the header \<open>Content-Type: application/json\<close> and the serialised
  response as body; a failed serialisation gives status 500 with the error message.
\<close>

theorem Handler_success:
  assumes "json_Decode (Body r) = Inr params"
    and "Exec (Query params) (OperationName params) (Variables params) w = Returned response w'"
    and "status rw = None"
  shows "(json_Marshal response = Inr responseJSON \<longrightarrow>
            (\<exists>rw'. Handler json_Decode Exec json_Marshal rw r w = Returned rw' w' \<and>
                   status rw' = Some 200 \<and>
                   header rw' ''Content-Type'' = Some [''application/json''] \<and>
                   body rw' = body rw @ responseJSON)) \<and>
         (json_Marshal response = Inl err \<longrightarrow>
            (\<exists>rw'. Handler json_Decode Exec json_Marshal rw r w = Returned rw' w' \<and>
                   status rw' = Some 500 \<and>
                   body rw' = body rw @ err @ [CHR 0x0A]))"
  using assms
  by (simp add: Handler_def http_Error_fresh Write_def WriteHeader_def Header_Set_def)

theorem Handler_success_witness:
  "returned (Handler accept_all exec_echo marshal_ok new_response \<lparr>Body = ''{}''\<rparr> empty_world) =
     Some \<lparr>header = [''Content-Type'' \<mapsto> [''application/json'']], status = Some 200, body = ''{}''\<rparr> \<and>
   returned (Handler accept_all exec_echo marshal_fail new_response \<lparr>Body = ''{}''\<rparr> empty_world) =
     Some (http_Error new_response ''json: unsupported value'' 500) \<and>
   status (http_Error new_response ''json: unsupported value'' 500) = Some 500"
proof -
  have a: "accept_all (Body \<lparr>Body = ''{}''\<rparr>) = Inr \<lparr>Query = ''{}'', OperationName = [], Variables = Map.empty\<rparr>"
    by (simp add: accept_all_def)
  have b: "exec_echo (Query \<lparr>Query = ''{}'', OperationName = [], Variables = Map.empty\<rparr>)
             (OperationName \<lparr>Query = ''{}'', OperationName = [], Variables = Map.empty\<rparr>)
             (Variables \<lparr>Query = ''{}'', OperationName = [], Variables = Map.empty\<rparr>) empty_world =
           Returned ''{}'' empty_world"
    by (simp add: exec_echo_def)
  have c: "status new_response = None" by (simp add: new_response_def)
  note t = Handler_success [where json_Decode = accept_all and Exec = exec_echo
      and r = "\<lparr>Body = ''{}''\<rparr>" and rw = new_response and w = empty_world
      and w' = empty_world and response = "''{}''"
      and params = "\<lparr>Query = ''{}'', OperationName = [], Variables = Map.empty\<rparr>", OF a b c]
  from t [of marshal_ok "''{}''" "[]"] t [of marshal_fail "[]" "''json: unsupported value''"]
  show ?thesis
    by (simp add: marshal_ok_def marshal_fail_def Handler_def accept_all_def exec_echo_def
        http_Error_def Write_def WriteHeader_def Header_Set_def new_response_def)
qed

end
